theory Spec2Isabelle
  imports Main "HOL-Library.Char_ord" "HOL-Library.List_Lexorder" "HOL-Library.Sublist"
begin

section \<open>Python values and the library functions the program calls\<close>

text \<open>
  The three scripts pass around values decoded from JSON (\<open>List[Any]\<close>, \<open>Dict[str, Any]\<close>).
  A Python \<open>str\<close> is a \<open>string\<close> whose characters are read as the code points U+0000 to
  U+00FF. A \<open>float\<close> is never computed with; it is carried by the text of its \<open>repr\<close>.
  A \<open>dict\<close> is an association list in insertion order; \<open>json.loads\<close> yields distinct keys.
  \<open>None\<close> is \<open>JNull\<close>.
\<close>

datatype json =
    JNull
  | JBool bool
  | JInt int
  | JFloat string
  | JStr string
  | JArr "json list"
  | JObj "(string \<times> json) list"

text \<open>Every \<open>raise\<close> of the program and of the library calls it makes is a value.\<close>

datatype exn =
    IndexError
  | ValueError
  | TypeError
  | KeyError
  | AttributeError
  | JSONDecodeError
  | FileNotFoundError
  | IsADirectoryError
  | RequestException
  | HTTPError
  | NetworkError string

subsection \<open>Truth value, indexing, iteration, membership\<close>

fun truthy :: "json \<Rightarrow> bool" where
  "truthy JNull = False"
| "truthy (JBool b) = b"
| "truthy (JInt n) = (n \<noteq> 0)"
| "truthy (JFloat r) = (r \<noteq> ''0.0'' \<and> r \<noteq> ''-0.0'')"
| "truthy (JStr s) = (s \<noteq> [])"
| "truthy (JArr xs) = (xs \<noteq> [])"
| "truthy (JObj kvs) = (kvs \<noteq> [])"

text \<open>\<open>v[i]\<close> for a literal index \<open>i \<ge> 0\<close>: a dict decoded from JSON has no integer key.\<close>

fun py_index :: "json \<Rightarrow> nat \<Rightarrow> exn + json" where
  "py_index (JArr xs) i = (if i < length xs then Inr (xs ! i) else Inl IndexError)"
| "py_index (JStr s) i = (if i < length s then Inr (JStr [s ! i]) else Inl IndexError)"
| "py_index (JObj kvs) i = Inl KeyError"
| "py_index v i = Inl TypeError"

text \<open>\<open>for x in v\<close>: the elements of a list, the characters of a str, the keys of a dict.\<close>

fun py_iter :: "json \<Rightarrow> exn + json list" where
  "py_iter (JArr xs) = Inr xs"
| "py_iter (JStr s) = Inr (map (\<lambda>c. JStr [c]) s)"
| "py_iter (JObj kvs) = Inr (map (\<lambda>kv. JStr (fst kv)) kvs)"
| "py_iter v = Inl TypeError"

text \<open>\<open>t in s\<close> on two strings: \<open>t\<close> occurs in \<open>s\<close> as a contiguous run.\<close>

fun str_contains :: "string \<Rightarrow> string \<Rightarrow> bool" where
  "str_contains t [] = (t = [])"
| "str_contains t (c # cs) = (prefix t (c # cs) \<or> str_contains t cs)"

text \<open>\<open>k in v\<close> for a str \<open>k\<close>: key of a dict, element of a list, substring of a str.\<close>

fun py_str_in :: "string \<Rightarrow> json \<Rightarrow> exn + bool" where
  "py_str_in k (JObj kvs) = Inr (k \<in> set (map fst kvs))"
| "py_str_in k (JArr xs) = Inr (JStr k \<in> set xs)"
| "py_str_in k (JStr s) = Inr (str_contains k s)"
| "py_str_in k v = Inl TypeError"

text \<open>\<open>d.get(k, default)\<close>; only a dict has the method.\<close>

fun py_get :: "json \<Rightarrow> string \<Rightarrow> json \<Rightarrow> exn + json" where
  "py_get (JObj kvs) k d = Inr (case map_of kvs k of None \<Rightarrow> d | Some v \<Rightarrow> v)"
| "py_get v k d = Inl AttributeError"

subsection \<open>Numbers as text\<close>

definition digit_char :: "nat \<Rightarrow> char" where
  "digit_char d = char_of (of_char CHR ''0'' + d :: nat)"

fun show_nat :: "nat \<Rightarrow> string" where
  "show_nat n = (if n < 10 then [digit_char n] else show_nat (n div 10) @ [digit_char (n mod 10)])"

declare show_nat.simps [simp del]

definition show_int :: "int \<Rightarrow> string" where
  "show_int i = (if i < 0 then CHR ''-'' # show_nat (nat (- i)) else show_nat (nat i))"

definition hex_char :: "nat \<Rightarrow> char" where
  "hex_char d = (if d < 10 then digit_char d else char_of (of_char CHR ''a'' + (d - 10) :: nat))"

definition hex2 :: "char \<Rightarrow> string" where
  "hex2 c = [hex_char ((of_char c :: nat) div 16), hex_char ((of_char c :: nat) mod 16)]"

subsection \<open>\<open>json.dump\<close> with its defaults\<close>

text \<open>
  \<open>ensure_ascii=True\<close>: inside a string the backslash, the double quote and every character
  outside \<open>' '..'~'\<close> are escaped; the item separator is \<open>", "\<close>, the key separator \<open>": "\<close>.
\<close>

definition json_escape_char :: "char \<Rightarrow> string" where
  "json_escape_char c =
     (if c = CHR 0x5C then [CHR 0x5C, CHR 0x5C]
      else if c = CHR 0x22 then [CHR 0x5C, CHR 0x22]
      else if c = CHR 0x08 then [CHR 0x5C, CHR ''b'']
      else if c = CHR 0x0C then [CHR 0x5C, CHR ''f'']
      else if c = CHR 0x0A then [CHR 0x5C, CHR ''n'']
      else if c = CHR 0x0D then [CHR 0x5C, CHR ''r'']
      else if c = CHR 0x09 then [CHR 0x5C, CHR ''t'']
      else if (of_char c :: nat) < 32 \<or> 126 < (of_char c :: nat)
        then [CHR 0x5C, CHR ''u'', CHR ''0'', CHR ''0''] @ hex2 c
      else [c])"

definition json_string :: "string \<Rightarrow> string" where
  "json_string s = [CHR 0x22] @ concat (map json_escape_char s) @ [CHR 0x22]"

fun join_with :: "string \<Rightarrow> string list \<Rightarrow> string" where
  "join_with sep [] = []"
| "join_with sep [x] = x"
| "join_with sep (x # y # ys) = x @ sep @ join_with sep (y # ys)"

definition json_float :: "string \<Rightarrow> string" where
  "json_float r =
     (if r = ''nan'' then ''NaN'' else if r = ''inf'' then ''Infinity''
      else if r = ''-inf'' then ''-Infinity'' else r)"

fun json_dumps :: "json \<Rightarrow> string" where
  "json_dumps JNull = ''null''"
| "json_dumps (JBool b) = (if b then ''true'' else ''false'')"
| "json_dumps (JInt n) = show_int n"
| "json_dumps (JFloat r) = json_float r"
| "json_dumps (JStr s) = json_string s"
| "json_dumps (JArr xs) = ''['' @ join_with '', '' (map json_dumps xs) @ '']''"
| "json_dumps (JObj kvs) =
     ''{'' @ join_with '', '' (map (\<lambda>kv. json_string (fst kv) @ '': '' @ json_dumps (snd kv)) kvs) @ ''}''"

subsection \<open>\<open>repr\<close> and \<open>str\<close>\<close>

text \<open>
  \<open>repr\<close> of a str picks double quotes when the text has a single quote and no double
  quote, and escapes the quote in use, the backslash and the characters that are not
  printable; \<open>str\<close> of a str is the str itself, \<open>str\<close> of anything else is its \<open>repr\<close>.
\<close>

definition py_printable :: "char \<Rightarrow> bool" where
  "py_printable c =
     (let n = (of_char c :: nat) in 32 \<le> n \<and> n \<noteq> 127 \<and> \<not> (128 \<le> n \<and> n \<le> 160) \<and> n \<noteq> 173)"

definition repr_escape_char :: "char \<Rightarrow> char \<Rightarrow> string" where
  "repr_escape_char q c =
     (if c = q \<or> c = CHR 0x5C then [CHR 0x5C, c]
      else if c = CHR 0x09 then [CHR 0x5C, CHR ''t'']
      else if c = CHR 0x0A then [CHR 0x5C, CHR ''n'']
      else if c = CHR 0x0D then [CHR 0x5C, CHR ''r'']
      else if \<not> py_printable c then [CHR 0x5C, CHR ''x''] @ hex2 c
      else [c])"

definition py_repr_str :: "string \<Rightarrow> string" where
  "py_repr_str s =
     (let q = (if CHR 0x27 \<in> set s \<and> CHR 0x22 \<notin> set s then CHR 0x22 else CHR 0x27)
      in [q] @ concat (map (repr_escape_char q) s) @ [q])"

fun py_repr :: "json \<Rightarrow> string" where
  "py_repr JNull = ''None''"
| "py_repr (JBool b) = (if b then ''True'' else ''False'')"
| "py_repr (JInt n) = show_int n"
| "py_repr (JFloat r) = r"
| "py_repr (JStr s) = py_repr_str s"
| "py_repr (JArr xs) = ''['' @ join_with '', '' (map py_repr xs) @ '']''"
| "py_repr (JObj kvs) =
     ''{'' @ join_with '', '' (map (\<lambda>kv. py_repr_str (fst kv) @ '': '' @ py_repr (snd kv)) kvs) @ ''}''"

fun py_str :: "json \<Rightarrow> string" where
  "py_str (JStr s) = s"
| "py_str v = py_repr v"

subsection \<open>\<open>int\<close> of a str\<close>

text \<open>
  \<open>int(s)\<close> drops white space at both ends, reads an optional sign and then decimal digits
  in which single underscores may stand between two digits. Anything else raises
  \<open>ValueError\<close>, and so does a numeral of more than \<open>int_max_str_digits\<close> digits (the
  interpreter's default limit on the conversion). \<open>None\<close> below is that \<open>ValueError\<close>.
  The white space that \<open>int\<close> drops is U+0009 to U+000D and U+0020 and, above U+007F, U+0085
  and U+00A0; the separators U+001C to U+001F, which \<open>str.strip\<close> removes, are not among
  them, so \<open>int\<close> raises on U+001C followed by \<open>7\<close>.
\<close>

definition py_isspace :: "char \<Rightarrow> bool" where
  "py_isspace c =
     (let n = (of_char c :: nat) in (9 \<le> n \<and> n \<le> 13) \<or> n = 32 \<or> n = 133 \<or> n = 160)"

definition py_strip :: "string \<Rightarrow> string" where
  "py_strip s = rev (dropWhile py_isspace (rev (dropWhile py_isspace s)))"

definition is_digit :: "char \<Rightarrow> bool" where
  "is_digit c = (CHR ''0'' \<le> c \<and> c \<le> CHR ''9'')"

definition digit_val :: "char \<Rightarrow> int" where
  "digit_val c = int (of_char c) - int (of_char CHR ''0'')"

fun int_body :: "string \<Rightarrow> bool" where
  "int_body [] = False"
| "int_body [c] = is_digit c"
| "int_body (c # d # cs) = (is_digit c \<and> (if d = CHR ''_'' then int_body cs else int_body (d # cs)))"

definition digits_value :: "string \<Rightarrow> int" where
  "digits_value ds = foldl (\<lambda>a c. 10 * a + digit_val c) 0 ds"

definition int_max_str_digits :: nat where
  "int_max_str_digits = 4300"

definition py_int :: "string \<Rightarrow> int option" where
  "py_int s =
     (let t = py_strip s;
          neg = (t \<noteq> [] \<and> hd t = CHR ''-'');
          body = (if t \<noteq> [] \<and> (hd t = CHR ''-'' \<or> hd t = CHR ''+'') then tl t else t);
          ds = filter is_digit body
      in if int_body body \<and> length ds \<le> int_max_str_digits
         then Some (if neg then - digits_value ds else digits_value ds)
         else None)"

text \<open>\<open>s.replace(c, '')\<close> for a one-character \<open>c\<close>, and \<open>s.lstrip(chars)\<close>.\<close>

definition str_remove :: "char \<Rightarrow> string \<Rightarrow> string" where
  "str_remove c s = filter (\<lambda>x. x \<noteq> c) s"

definition lstrip :: "string \<Rightarrow> string \<Rightarrow> string" where
  "lstrip chars s = dropWhile (\<lambda>c. c \<in> set chars) s"

text \<open>Sequencing of calls that may raise.\<close>

definition ebind :: "exn + 'a \<Rightarrow> ('a \<Rightarrow> exn + 'b) \<Rightarrow> exn + 'b" where
  "ebind r f = (case r of Inl e \<Rightarrow> Inl e | Inr v \<Rightarrow> f v)"

section \<open>The collector (\<open>collecting.py\<close>)\<close>

text \<open>
  The file system the collector touches is two text files: the record log
  \<open>CONFIG['OUTPUT_FILE']\<close> and the checkpoint file; \<open>None\<close> is a file that does not exist.
  The requests sent so far are kept as a trace. The transport (\<open>requests.post\<close>) and the
  decoder (\<open>json.loads\<close>) are outside the program and are parameters: the transport answers
  the \<open>n\<close>-th request of the process, and the decoder returns \<open>None\<close> where it raises
  \<open>JSONDecodeError\<close>. A request URL is kept as its host and its query parameters before
  \<open>urlencode\<close>. Logging and the progress bar have no effect on the state.
\<close>

type_synonym url = "string \<times> (string \<times> string) list"

record response =
  status_code :: int
  body_text :: string

record cenv =
  http_post :: "nat \<Rightarrow> url \<Rightarrow> exn + response"
  json_loads :: "string \<Rightarrow> json option"

record cstate =
  output_file :: "string option"
  checkpoint_file :: "string option"
  requests :: "url list"

definition API_HOST :: string where
  "API_HOST = ''https://chrome.google.com/webstore/ajax/item?''"

definition MIN_USER_COUNT :: int where
  "MIN_USER_COUNT = 1"

definition STORE_VERSION :: string where
  "STORE_VERSION = ''20210820''"

definition page_limit :: int where
  "page_limit = 200"

definition is_string_in_file :: "json \<Rightarrow> string option \<Rightarrow> exn + bool" where
  "is_string_in_file target_string file =
     (case file of
        None \<Rightarrow> Inr False
      | Some content \<Rightarrow>
          (case target_string of
             JStr t \<Rightarrow> Inr (str_contains t content)
           | _ \<Rightarrow> Inl TypeError))"

definition append_dict_to_file :: "json \<Rightarrow> string option \<Rightarrow> string option" where
  "append_dict_to_file data file =
     (if truthy data
      then Some ((case file of None \<Rightarrow> [] | Some content \<Rightarrow> content) @ json_dumps data @ [CHR 0x0A])
      else file)"

definition load_checkpoint :: "cenv \<Rightarrow> string option \<Rightarrow> exn + json" where
  "load_checkpoint env file =
     (case file of
        None \<Rightarrow> Inr JNull
      | Some content \<Rightarrow>
          (case json_loads env content of
             None \<Rightarrow> Inl JSONDecodeError
           | Some data \<Rightarrow> py_get data ''token'' JNull))"

definition save_checkpoint :: "json \<Rightarrow> cstate \<Rightarrow> cstate" where
  "save_checkpoint token st = st\<lparr>checkpoint_file := Some (json_dumps (JObj [(''token'', token)]))\<rparr>"

text \<open>\<open>WebStoreCollector.__init__\<close> creates the record log when it does not exist.\<close>

definition init :: "cstate \<Rightarrow> cstate" where
  "init st = (if output_file st = None then st\<lparr>output_file := Some []\<rparr> else st)"

definition build_request_url :: "json \<Rightarrow> url" where
  "build_request_url token =
     (API_HOST,
      [(''hl'', ''en''),
       (''pv'', STORE_VERSION),
       (''mce'', ''atf,pii,rtr,rlb,gtc,hcn,svp,wtd,hap,nma,dpb,utb,hbh,ebo,hqb,ifm,''
                 @ ''ndd,ntd,oiw,uga,c3d,ncr,hns,ctm,ac,hot,hfi,dtp,mac,bga,pon,fcf,rai,hbs,rma,''
                 @ ''ibg,pot,evt,hib''),
       (''requestedCounts'', ''infiniteWall:'' @ show_int page_limit @ '':0:false''),
       (''category'', ''extensions''),
       (''rt'', ''j'')]
      @ (if truthy token then [(''token'', py_str token)] else []))"

definition make_request :: "cenv \<Rightarrow> url \<Rightarrow> cstate \<Rightarrow> cstate \<times> (exn + response)" where
  "make_request env u st =
     (st\<lparr>requests := requests st @ [u]\<rparr>,
      case http_post env (length (requests st)) u of
        Inl e \<Rightarrow> Inl e
      | Inr r \<Rightarrow> if status_code r \<noteq> 200 then Inl RequestException else Inr r)"

definition parse_response :: "cenv \<Rightarrow> response \<Rightarrow> exn + json" where
  "parse_response env r =
     (case json_loads env (lstrip [CHR '')'', CHR '']'', CHR ''}'', CHR 0x27, CHR 0x0A] (body_text r)) of
        None \<Rightarrow> Inl JSONDecodeError
      | Some v \<Rightarrow> Inr v)"

text \<open>\<open>int(data[23].replace(',', '').replace('+', ''))\<close>: only a str has \<open>replace\<close>.\<close>

definition user_count_of :: "json \<Rightarrow> exn + int" where
  "user_count_of v =
     (case v of
        JStr s \<Rightarrow>
          (case py_int (str_remove CHR ''+'' (str_remove CHR '','' s)) of
             None \<Rightarrow> Inl ValueError
           | Some n \<Rightarrow> Inr n)
      | _ \<Rightarrow> Inl AttributeError)"

text \<open>\<open>except (IndexError, ValueError) as error: raise ValueError(...) from error\<close>.\<close>

definition reraise_value_error :: "exn + 'a \<Rightarrow> exn + 'a" where
  "reraise_value_error r =
     (case r of
        Inl e \<Rightarrow> if e = IndexError \<or> e = ValueError then Inl ValueError else Inl e
      | Inr v \<Rightarrow> Inr v)"

definition parse_extension_info :: "json \<Rightarrow> exn + (json \<times> int \<times> json)" where
  "parse_extension_info data = reraise_value_error
     (ebind (py_index data 0) (\<lambda>extension_id.
      ebind (py_index data 23) (\<lambda>d23.
      ebind (user_count_of d23) (\<lambda>user_count.
      ebind (py_index data 1) (\<lambda>d1.
      ebind (py_index data 2) (\<lambda>d2.
      ebind (py_index data 6) (\<lambda>d6.
      ebind (py_index data 9) (\<lambda>d9.
      ebind (py_index data 10) (\<lambda>d10.
      ebind (py_index data 12) (\<lambda>d12.
      ebind (py_index data 22) (\<lambda>d22.
      ebind (py_index data 23) (\<lambda>d23'.
      ebind (py_index data 11) (\<lambda>d11.
        Inr (extension_id, user_count,
             JObj [(''id'', extension_id),
                   (''name'', d1),
                   (''developer'', d2),
                   (''description'', d6),
                   (''primary_category'', d9),
                   (''secondary_category'', d10),
                   (''rating_score'', d12),
                   (''star_count'', d22),
                   (''user_count'', d23'),
                   (''url'', d11)]))))))))))))))"

text \<open>
  The loop of \<open>process_extensions\<close> over the rows, with the counter \<open>new_entries\<close>. The
  result is the record log as the loop leaves it and either the exception that ended the
  loop or the count it returns.
\<close>

fun process_rows :: "json list \<Rightarrow> nat \<Rightarrow> string option \<Rightarrow> string option \<times> (exn + nat)" where
  "process_rows [] new_entries file = (file, Inr new_entries)"
| "process_rows (extension_data # rest) new_entries file =
     (case parse_extension_info extension_data of
        Inl e \<Rightarrow> (file, Inl e)
      | Inr (ext_id, user_count, extension_info) \<Rightarrow>
          (case is_string_in_file ext_id file of
             Inl e \<Rightarrow> (file, Inl e)
           | Inr found \<Rightarrow>
               if found then process_rows rest new_entries file
               else if user_count \<ge> MIN_USER_COUNT
                 then process_rows rest (new_entries + 1) (append_dict_to_file extension_info file)
               else process_rows rest new_entries file))"

definition process_extensions :: "json \<Rightarrow> string option \<Rightarrow> string option \<times> (exn + nat)" where
  "process_extensions extensions file =
     (case py_iter extensions of
        Inl e \<Rightarrow> (file, Inl e)
      | Inr rows \<Rightarrow> process_rows rows 0 file)"

text \<open>\<open>response_data[0][1][1]\<close> and \<open>response_data[0][1][4]\<close>, in the order they are read.\<close>

definition page_fields :: "json \<Rightarrow> exn + (json \<times> json)" where
  "page_fields response_data =
     ebind (py_index response_data 0) (\<lambda>r0.
     ebind (py_index r0 1) (\<lambda>r01.
     ebind (py_index r01 1) (\<lambda>extension_items.
     ebind (py_index response_data 0) (\<lambda>r0'.
     ebind (py_index r0' 1) (\<lambda>r01'.
     ebind (py_index r01' 4) (\<lambda>cursor.
       Inr (extension_items, cursor)))))))"

text \<open>
  What \<open>run\<close> leaves behind: the state, the local \<open>next_page_token\<close> and \<open>total_saved\<close>, and
  the exception that left \<open>run\<close>, if one did (\<open>None\<close>: the loop ended with \<open>break\<close>).
\<close>

record run_result =
  final_state :: cstate
  final_token :: json
  total_saved :: nat
  raised :: "exn option"

text \<open>
  One pass through the body of the \<open>while True\<close> loop of \<open>run\<close>. \<open>Inl\<close> is a pass that leaves
  the loop, by \<open>break\<close> or by an exception that nothing catches; \<open>Inr\<close> is a pass that
  reaches the end of the body, with the values of \<open>next_page_token\<close>, \<open>total_saved\<close> and the
  state for the next pass.
\<close>

definition run_body :: "cenv \<Rightarrow> json \<Rightarrow> nat \<Rightarrow> cstate \<Rightarrow> run_result + (json \<times> nat \<times> cstate)" where
  "run_body env next_page_token total_so_far st =
     (let u = build_request_url next_page_token;
          (st1, resp) = make_request env u st
      in case ebind resp (parse_response env) of
           Inl e \<Rightarrow>
             Inl \<lparr>final_state = st1, final_token = next_page_token, total_saved = total_so_far,
                  raised = None\<rparr>
         | Inr response_data \<Rightarrow>
             (case page_fields response_data of
                Inl e \<Rightarrow>
                  Inl \<lparr>final_state = st1, final_token = next_page_token, total_saved = total_so_far,
                       raised = Some e\<rparr>
              | Inr (extension_items, cursor) \<Rightarrow>
                  (let token = (if cursor \<noteq> JStr ''#@'' then cursor else JNull)
                   in if \<not> truthy extension_items
                      then Inl \<lparr>final_state = st1, final_token = token, total_saved = total_so_far,
                                raised = None\<rparr>
                      else
                        (case process_extensions extension_items (output_file st1) of
                           (file, Inl e) \<Rightarrow>
                             Inl \<lparr>final_state = st1\<lparr>output_file := file\<rparr>, final_token = token,
                                  total_saved = total_so_far, raised = Some e\<rparr>
                         | (file, Inr saved_this_page) \<Rightarrow>
                             (let st2 = st1\<lparr>output_file := file\<rparr>;
                                  st3 = (if truthy token then save_checkpoint token st2 else st2)
                              in if saved_this_page = 0 \<and> token = JNull
                                 then Inl \<lparr>final_state = st3, final_token = token,
                                           total_saved = total_so_far + saved_this_page, raised = None\<rparr>
                                 else Inr (token, total_so_far + saved_this_page, st3))))))"

text \<open>
  The loop need not end, so it runs on fuel: one unit for each pass through the body,
  \<open>None\<close> when the fuel is used up before the loop is left.
\<close>

fun run_loop :: "nat \<Rightarrow> cenv \<Rightarrow> json \<Rightarrow> nat \<Rightarrow> cstate \<Rightarrow> run_result option" where
  "run_loop 0 env next_page_token total_so_far st = None"
| "run_loop (Suc fuel) env next_page_token total_so_far st =
     (case run_body env next_page_token total_so_far st of
        Inl r \<Rightarrow> Some r
      | Inr (token, total_so_far', st') \<Rightarrow> run_loop fuel env token total_so_far' st')"

definition run :: "nat \<Rightarrow> cenv \<Rightarrow> cstate \<Rightarrow> run_result option" where
  "run fuel env st =
     (case load_checkpoint env (checkpoint_file st) of
        Inl e \<Rightarrow> Some \<lparr>final_state = st, final_token = JNull, total_saved = 0, raised = Some e\<rparr>
      | Inr next_page_token \<Rightarrow> run_loop fuel env next_page_token 0 st)"

text \<open>The script: \<open>collector = WebStoreCollector(); collector.run()\<close>.\<close>

definition collect :: "nat \<Rightarrow> cenv \<Rightarrow> cstate \<Rightarrow> run_result option" where
  "collect fuel env st = run fuel env (init st)"

section \<open>The downloader (\<open>download.py\<close>)\<close>

text \<open>
  The downloader reads the record log, looks for archive files and writes them. Its state
  is the text of the record log (\<open>None\<close>: no such file), the regular files by path with
  their contents, the URLs requested so far and the updates of the progress bar's postfix
  in the order they are made. Outside the program are the transport (\<open>requests.get\<close>,
  answering the \<open>n\<close>-th request of the process), the decoder (\<open>json.loads\<close>, \<open>None\<close> where it
  raises \<open>JSONDecodeError\<close>) and the operating system's refusal to open a path for writing
  (\<open>None\<close>: the file is opened). The random pause after a download changes nothing here.
\<close>

datatype status = Downloaded | Failed exn

record denv =
  http_get :: "nat \<Rightarrow> string \<Rightarrow> exn + response"
  loads_line :: "string \<Rightarrow> json option"
  open_error :: "string \<Rightarrow> exn option"

record dstate =
  extension_list :: "string option"
  files :: "string \<Rightarrow> string option"
  gets :: "string list"
  postfix :: "(json \<times> status) list"

definition DOWNLOAD_DIR :: string where
  "DOWNLOAD_DIR = ''./data/extension/''"

definition CHROME_VERSION :: string where
  "CHROME_VERSION = ''121.0.6167''"

definition NACL_ARCH :: string where
  "NACL_ARCH = ''x86-64''"

text \<open>\<open>os.path.join\<close> of two components on a POSIX system.\<close>

definition path_join :: "string \<Rightarrow> string \<Rightarrow> string" where
  "path_join a b =
     (if b \<noteq> [] \<and> hd b = CHR ''/'' then b
      else if a = [] \<or> last a = CHR ''/'' then a @ b
      else a @ ''/'' @ b)"

text \<open>
  The lines of a text file as iterating over it yields them: each line keeps its line end,
  and \<open>\r\n\<close> and \<open>\r\<close> are read as \<open>\n\<close>. The first argument holds the characters of the line
  being read, last one first.
\<close>

fun split_lines :: "string \<Rightarrow> string \<Rightarrow> string list" where
  "split_lines cur [] = (if cur = [] then [] else [rev cur])"
| "split_lines cur [c] =
     (if c = CHR 0x0A \<or> c = CHR 0x0D then [rev (CHR 0x0A # cur)] else [rev (c # cur)])"
| "split_lines cur (c # d # cs) =
     (if c = CHR 0x0A then rev (CHR 0x0A # cur) # split_lines [] (d # cs)
      else if c = CHR 0x0D then
        (if d = CHR 0x0A then rev (CHR 0x0A # cur) # split_lines [] cs
         else rev (CHR 0x0A # cur) # split_lines [] (d # cs))
      else split_lines (c # cur) (d # cs))"

text \<open>The loop of \<open>load_extension_list\<close> over the lines, with the list \<open>extensions\<close>.\<close>

fun load_lines :: "denv \<Rightarrow> string list \<Rightarrow> json list \<Rightarrow> json list" where
  "load_lines env [] extensions = extensions"
| "load_lines env (l # ls) extensions =
     (case loads_line env l of
        None \<Rightarrow> load_lines env ls extensions
      | Some v \<Rightarrow> load_lines env ls (extensions @ [v]))"

definition load_extension_list :: "denv \<Rightarrow> string option \<Rightarrow> exn + json list" where
  "load_extension_list env file =
     (case file of
        None \<Rightarrow> Inl FileNotFoundError
      | Some content \<Rightarrow> Inr (load_lines env (split_lines [] content) []))"

definition build_crx_download_url :: "json \<Rightarrow> string" where
  "build_crx_download_url extension_id =
     ''https://clients2.google.com/service/update2/crx'' @ ''?'' @
     ''response=redirect&prodversion='' @ CHROME_VERSION @
     ''&acceptformat=crx2,crx3&x=id%3D'' @ py_str extension_id @ ''%26uc'' @
     ''&nacl_arch='' @ NACL_ARCH"

text \<open>\<open>response.raise_for_status()\<close> raises \<open>HTTPError\<close> for a status from 400 to 599.\<close>

definition raise_for_status :: "response \<Rightarrow> exn + unit" where
  "raise_for_status r = (if 400 \<le> status_code r \<and> status_code r < 600 then Inl HTTPError else Inr ())"

definition download_extension :: "denv \<Rightarrow> json \<Rightarrow> string \<Rightarrow> dstate \<Rightarrow> dstate \<times> (exn + unit)" where
  "download_extension env extension_id output_path st =
     (let u = build_crx_download_url extension_id;
          st1 = st\<lparr>gets := gets st @ [u]\<rparr>
      in case ebind (http_get env (length (gets st)) u) (\<lambda>r. ebind (raise_for_status r) (\<lambda>_. Inr r)) of
           Inl e \<Rightarrow> (st1, Inl e)
         | Inr r \<Rightarrow>
             (case open_error env output_path of
                Some e \<Rightarrow> (st1, Inl e)
              | None \<Rightarrow> (st1\<lparr>files := (files st1)(output_path := Some (body_text r))\<rparr>, Inr ())))"

text \<open>\<open>os.path.join(CONFIG['DOWNLOAD_DIR'], f"{ext_id}.crx")\<close>.\<close>

definition crx_path :: "json \<Rightarrow> string" where
  "crx_path ext_id = path_join DOWNLOAD_DIR (py_str ext_id @ ''.crx'')"

text \<open>
  The loop of \<open>main\<close> over the loaded records. The result is the state as the loop leaves
  it and the exception that left \<open>main\<close>, if one did.
\<close>

fun download_all :: "denv \<Rightarrow> json list \<Rightarrow> dstate \<Rightarrow> dstate \<times> exn option" where
  "download_all env [] st = (st, None)"
| "download_all env (ext # rest) st =
     (case py_get ext ''id'' JNull of
        Inl e \<Rightarrow> (st, Some e)
      | Inr ext_id \<Rightarrow>
          if \<not> truthy ext_id then download_all env rest st
          else
            (let output_file = crx_path ext_id
             in if files st output_file \<noteq> None then download_all env rest st
                else
                  (case download_extension env ext_id output_file st of
                     (st1, Inr _) \<Rightarrow>
                       download_all env rest (st1\<lparr>postfix := postfix st1 @ [(ext_id, Downloaded)]\<rparr>)
                   | (st1, Inl e) \<Rightarrow>
                       download_all env rest (st1\<lparr>postfix := postfix st1 @ [(ext_id, Failed e)]\<rparr>))))"

definition download_main :: "denv \<Rightarrow> dstate \<Rightarrow> dstate \<times> exn option" where
  "download_main env st =
     (case load_extension_list env (extension_list st) of
        Inl e \<Rightarrow> (st, Some e)
      | Inr extensions \<Rightarrow> download_all env extensions st)"

section \<open>The classifier (\<open>filtering.py\<close>)\<close>

text \<open>\<open>any(f(x) for x in xs)\<close>: it stops at the first \<open>True\<close> and at the first exception.\<close>

fun any_gen :: "('a \<Rightarrow> exn + bool) \<Rightarrow> 'a list \<Rightarrow> exn + bool" where
  "any_gen f [] = Inr False"
| "any_gen f (x # xs) =
     (case f x of
        Inl e \<Rightarrow> Inl e
      | Inr b \<Rightarrow> if b then Inr True else any_gen f xs)"

text \<open>\<open>res.endswith(('html', 'js'))\<close>; only a str has the method.\<close>

definition ends_html_js :: "json \<Rightarrow> exn + bool" where
  "ends_html_js res =
     (case res of
        JStr s \<Rightarrow> Inr (suffix ''html'' s \<or> suffix ''js'' s)
      | _ \<Rightarrow> Inl AttributeError)"

definition resource_matches :: "json \<Rightarrow> exn + bool" where
  "resource_matches resource =
     (case resource of
        JObj kvs \<Rightarrow>
          ebind (py_get resource ''resources'' (JArr [])) (\<lambda>rs.
          ebind (py_iter rs) (any_gen ends_html_js))
      | _ \<Rightarrow> Inr False)"

definition web_accessible :: "json \<Rightarrow> exn + bool" where
  "web_accessible manifest =
     ebind (py_get manifest ''web_accessible_resources'' (JArr [])) (\<lambda>war.
     ebind (py_iter war) (any_gen resource_matches))"

definition content_scripts :: "json \<Rightarrow> exn + bool" where
  "content_scripts manifest =
     ebind (py_get manifest ''content_scripts'' (JArr [])) (\<lambda>cs.
     ebind (py_iter cs) (any_gen (py_str_in ''js'')))"

definition has_permissions :: "json \<Rightarrow> exn + bool" where
  "has_permissions manifest =
     ebind (py_get manifest ''permissions'' (JArr [])) (\<lambda>perms.
       Inr (\<exists>flag \<in> set [''://'', ''<all_urls>'', ''webRequest'']. str_contains flag (py_str perms)))"

text \<open>\<open>v[k]\<close> for a str \<open>k\<close>, and \<open>len(v)\<close>.\<close>

fun py_item :: "json \<Rightarrow> string \<Rightarrow> exn + json" where
  "py_item (JObj kvs) k = (case map_of kvs k of None \<Rightarrow> Inl KeyError | Some v \<Rightarrow> Inr v)"
| "py_item v k = Inl TypeError"

fun py_len :: "json \<Rightarrow> exn + nat" where
  "py_len (JStr s) = Inr (length s)"
| "py_len (JArr xs) = Inr (length xs)"
| "py_len (JObj kvs) = Inr (length kvs)"
| "py_len v = Inl TypeError"

definition has_action :: "json \<Rightarrow> exn + bool" where
  "has_action manifest =
     ebind (py_str_in ''browser_action'' manifest) (\<lambda>b.
     ebind (if b then Inr True else py_str_in ''action'' manifest) (\<lambda>present.
       if \<not> present then Inr False
       else
         ebind (py_get manifest ''browser_action'' JNull) (\<lambda>fallback.
         ebind (py_get manifest ''action'' fallback) (\<lambda>action.
           if \<not> truthy action then Inr False
           else
             ebind (py_str_in ''default_popup'' action) (\<lambda>declared.
               if \<not> declared then Inr False
               else
                 ebind (py_item action ''default_popup'') (\<lambda>popup.
                 ebind (py_len popup) (\<lambda>n. Inr (n > 0))))))))"

text \<open>The seven values are computed in the order of the source, then \<open>any\<close> joins them.\<close>

definition is_network_related :: "json \<Rightarrow> exn + bool" where
  "is_network_related manifest =
     ebind (web_accessible manifest) (\<lambda>web_accessible'.
     ebind (py_str_in ''host_permissions'' manifest) (\<lambda>host_permissions.
     ebind (py_str_in ''chrome_url_overrides'' manifest) (\<lambda>chrome_url_overrides.
     ebind (content_scripts manifest) (\<lambda>content_scripts'.
     ebind (has_permissions manifest) (\<lambda>has_permissions'.
     ebind (has_action manifest) (\<lambda>has_action'.
     ebind (py_str_in ''optional_permissions'' manifest) (\<lambda>optional_permissions.
       Inr (web_accessible' \<or> has_permissions' \<or> host_permissions \<or> content_scripts' \<or>
            has_action' \<or> optional_permissions \<or> chrome_url_overrides))))))))"

text \<open>\<open>manifest.pop(key, None)\<close>: a list's \<open>pop\<close> takes no default, other values have no \<open>pop\<close>.\<close>

fun py_pop :: "json \<Rightarrow> string \<Rightarrow> exn + json" where
  "py_pop (JObj kvs) key = Inr (JObj (filter (\<lambda>kv. fst kv \<noteq> key) kvs))"
| "py_pop (JArr xs) key = Inl TypeError"
| "py_pop v key = Inl AttributeError"

definition keys_to_remove :: "string list" where
  "keys_to_remove =
     [''update_url'', ''name'', ''description'', ''short_name'', ''icons'', ''version'', ''default_locale'']"

fun pop_all :: "json \<Rightarrow> string list \<Rightarrow> exn + json" where
  "pop_all manifest [] = Inr manifest"
| "pop_all manifest (key # keys) = ebind (py_pop manifest key) (\<lambda>m. pop_all m keys)"

definition clean_manifest :: "json \<Rightarrow> exn + json" where
  "clean_manifest manifest = pop_all manifest keys_to_remove"

text \<open>
  What the classifier sees of the disk: the names in the download directory as
  \<open>os.listdir\<close> returns them, which paths are directories, and the text of the regular
  files by path.
\<close>

record disk =
  listing :: "string list"
  is_dir :: "string \<Rightarrow> bool"
  file_text :: "string \<Rightarrow> string option"

definition SOURCE_DIR :: string where
  "SOURCE_DIR = ''./data/source/''"

text \<open>
  \<open>os.path.splitext(file)[0]\<close> for a name that ends in \<open>.crx\<close> and has no slash: a name of
  dots only before \<open>crx\<close> has no extension.
\<close>

definition splitext_root :: "string \<Rightarrow> string" where
  "splitext_root name =
     (let stem = take (length name - 4) name
      in if \<exists>c \<in> set stem. c \<noteq> CHR ''.'' then stem else name)"

definition list_extension_ids :: "disk \<Rightarrow> string list" where
  "list_extension_ids d = sort (map splitext_root (filter (suffix ''.crx'') (listing d)))"

text \<open>\<open>search_paths\<close> is \<open>config.SOURCE_DIR.split(';')\<close>, the one directory.\<close>

definition find_extracted_dir_by_id :: "disk \<Rightarrow> string \<Rightarrow> string" where
  "find_extracted_dir_by_id d ext_id =
     (let candidate_path = path_join SOURCE_DIR ext_id
      in if is_dir d candidate_path then candidate_path else [])"

definition read_manifest :: "(string \<Rightarrow> json option) \<Rightarrow> disk \<Rightarrow> string \<Rightarrow> exn + json" where
  "read_manifest loads d manifest_path =
     (case file_text d manifest_path of
        None \<Rightarrow> Inl IsADirectoryError
      | Some content \<Rightarrow> (case loads content of None \<Rightarrow> Inl JSONDecodeError | Some v \<Rightarrow> Inr v))"

text \<open>
  The loop of \<open>identify_network_related_extensions\<close>, with the set \<open>network_exts\<close> as the
  list of the ids added and, to observe it, the value of the local \<open>manifest\<close> at the end of
  each pass that read one. The function does not write: the disk it returns is the disk
  it was given.
\<close>

fun identify_loop ::
  "(string \<Rightarrow> json option) \<Rightarrow> disk \<Rightarrow> string list \<Rightarrow> string list \<Rightarrow> (string \<times> json) list \<Rightarrow>
   exn + (string list \<times> (string \<times> json) list)" where
  "identify_loop loads d [] network_exts manifests = Inr (network_exts, manifests)"
| "identify_loop loads d (ext_id # rest) network_exts manifests =
     (let ext_dir = find_extracted_dir_by_id d ext_id;
          manifest_path = path_join ext_dir ''manifest.json''
      in if \<not> (is_dir d manifest_path \<or> file_text d manifest_path \<noteq> None)
         then identify_loop loads d rest network_exts manifests
         else
           ebind (read_manifest loads d manifest_path) (\<lambda>manifest.
           ebind (is_network_related manifest) (\<lambda>network.
             if network
             then identify_loop loads d rest (network_exts @ [ext_id]) (manifests @ [(ext_id, manifest)])
             else
               ebind (clean_manifest manifest) (\<lambda>cleaned.
                 identify_loop loads d rest network_exts (manifests @ [(ext_id, cleaned)])))))"

definition identify_network_related_extensions ::
  "(string \<Rightarrow> json option) \<Rightarrow> disk \<Rightarrow> disk \<times> (exn + (string list \<times> (string \<times> json) list))" where
  "identify_network_related_extensions loads d =
     (d, case identify_loop loads d (list_extension_ids d) [] [] of
           Inl e \<Rightarrow> Inl e
         | Inr (network_exts, manifests) \<Rightarrow> Inr (sort (remdups network_exts), manifests))"

section \<open>Fixtures\<close>

text \<open>
  A catalog row as the store sends it: a list of 24 fields, of which the collector reads
  the positions 0, 1, 2, 6, 9, 10, 11, 12, 22 and 23.
\<close>

definition fixture_row :: "string \<Rightarrow> string \<Rightarrow> json" where
  "fixture_row ext_id users =
     JArr [JStr ext_id, JStr ''name'', JStr ''dev'', JNull, JNull, JNull, JStr ''text'', JNull,
           JNull, JStr ''cat'', JStr ''sub'', JStr ''link'', JFloat ''4.5'', JNull, JNull, JNull,
           JNull, JNull, JNull, JNull, JNull, JNull, JStr ''12'', JStr users]"

definition fixture_record :: "string \<Rightarrow> string \<Rightarrow> json" where
  "fixture_record ext_id users =
     JObj [(''id'', JStr ext_id), (''name'', JStr ''name''), (''developer'', JStr ''dev''),
           (''description'', JStr ''text''), (''primary_category'', JStr ''cat''),
           (''secondary_category'', JStr ''sub''), (''rating_score'', JFloat ''4.5''),
           (''star_count'', JStr ''12''), (''user_count'', JStr users), (''url'', JStr ''link'')]"

text \<open>
  A catalog page as \<open>run\<close> reads it: \<open>response_data[0][1][1]\<close> holds the rows and
  \<open>response_data[0][1][4]\<close> the next cursor. The body of a response is the anti-CSRF prefix
  followed by the serialised page.
\<close>

definition fixture_page :: "json list \<Rightarrow> json \<Rightarrow> json" where
  "fixture_page rows cursor =
     JArr [JArr [JStr ''getitemsresponse'', JArr [JNull, JArr rows, JNull, JNull, cursor]]]"

definition fixture_body :: "json \<Rightarrow> string" where
  "fixture_body doc = [CHR '')'', CHR '']'', CHR ''}'', CHR 0x27, CHR 0x0A] @ json_dumps doc"

text \<open>
  The decoder of a fixture knows a list of documents and decodes the text that
  \<open>json.dumps\<close> writes for one of them back to it; every other text does not decode.
\<close>

definition fixture_loads :: "json list \<Rightarrow> string \<Rightarrow> json option" where
  "fixture_loads docs s = find (\<lambda>d. json_dumps d = s) docs"

text \<open>
  A catalog serves one page for each continuation token (\<open>None\<close>: the request carries no
  token) and has no answer for any other request.
\<close>

definition fixture_catalog :: "(string option \<times> json) list \<Rightarrow> nat \<Rightarrow> url \<Rightarrow> exn + response" where
  "fixture_catalog pages n u =
     (case map_of pages (map_of (snd u) ''token'') of
        None \<Rightarrow> Inl (NetworkError ''no such page'')
      | Some doc \<Rightarrow> Inr \<lparr>status_code = 200, body_text = fixture_body doc\<rparr>)"

definition fixture_env :: "(string option \<times> json) list \<Rightarrow> json list \<Rightarrow> cenv" where
  "fixture_env pages docs =
     \<lparr>http_post = fixture_catalog pages, json_loads = fixture_loads (docs @ map snd pages)\<rparr>"










text \<open>A one-page catalog whose first row is an empty list and whose second row is well formed.\<close>

definition bad_page :: json where
  "bad_page = fixture_page [JArr [], fixture_row ''abcd'' ''5''] (JStr ''t2'')"

text \<open>An item id with a double quote in it: the three characters \<open>a\<close>, \<open>"\<close>, \<open>b\<close>.\<close>

definition quoted_id :: string where
  "quoted_id = [CHR ''a'', CHR 0x22, CHR ''b'']"

text \<open>Before the first run: no record log, no checkpoint file, no request sent.\<close>

definition scratch_state :: cstate where
  "scratch_state = \<lparr>output_file = None, checkpoint_file = None, requests = []\<rparr>"

section \<open>Properties of the collector\<close>

subsection \<open>Reading a user count\<close>

lemma is_digit_iff: "is_digit c \<longleftrightarrow> 48 \<le> (of_char c :: nat) \<and> (of_char c :: nat) \<le> 57"
  by (simp add: is_digit_def less_eq_char_def)

lemma digit_not_space: "is_digit c \<Longrightarrow> \<not> py_isspace c"
  by (simp add: is_digit_iff py_isspace_def Let_def)

lemma digit_not_sign: "is_digit c \<Longrightarrow> c \<noteq> CHR ''-'' \<and> c \<noteq> CHR ''+'' \<and> c \<noteq> CHR ''_''"
  by (auto simp add: is_digit_iff)

lemma int_body_digits: "ds \<noteq> [] \<Longrightarrow> \<forall>c\<in>set ds. is_digit c \<Longrightarrow> int_body ds"
  by (induction ds rule: int_body.induct) (auto simp: digit_not_sign)

lemma py_strip_id:
  assumes "s \<noteq> []" "\<not> py_isspace (hd s)" "\<not> py_isspace (last s)"
  shows "py_strip s = s"
proof -
  have front: "dropWhile py_isspace s = s"
    using assms by (cases s) auto
  have "rev s \<noteq> []" "\<not> py_isspace (hd (rev s))"
    using assms by (auto simp: hd_rev)
  then have rear: "dropWhile py_isspace (rev s) = rev s"
    by (cases "rev s") auto
  show ?thesis
    by (simp add: py_strip_def front rear)
qed

lemma py_int_digits:
  assumes "ds \<noteq> []" "\<forall>c\<in>set ds. is_digit c" "length ds \<le> int_max_str_digits"
  shows "py_int ds = Some (digits_value ds)"
proof -
  have ends: "is_digit (hd ds)" "is_digit (last ds)"
    using assms by auto
  have strip: "py_strip ds = ds"
    using assms ends by (intro py_strip_id) (auto dest: digit_not_space)
  have all: "filter is_digit ds = ds"
    using assms by (simp add: filter_id_conv)
  show ?thesis
    using assms ends(1) int_body_digits[OF assms(1,2)] digit_not_sign[OF ends(1)]
    by (simp add: py_int_def strip all Let_def)
qed

lemma str_remove_both:
  "str_remove CHR ''+'' (str_remove CHR '','' s) = filter (\<lambda>c. c \<noteq> CHR '','' \<and> c \<noteq> CHR ''+'') s"
  by (auto simp: str_remove_def intro: filter_cong)

lemmas eval_int =
  user_count_of_def str_remove_def py_int_def py_strip_def py_isspace_def is_digit_iff
  digits_value_def digit_val_def int_max_str_digits_def

lemma user_count_examples:
  "user_count_of (JStr ''10,000+'') = Inr 10000" "user_count_of (JStr ''1'') = Inr 1"
  by (simp_all add: eval_int)

lemma user_count_strips:
  assumes "filter (\<lambda>c. c \<noteq> CHR '','' \<and> c \<noteq> CHR ''+'') s = ds"
    and "ds \<noteq> []" "\<forall>c\<in>set ds. is_digit c" "length ds \<le> int_max_str_digits"
  shows "user_count_of (JStr s) = Inr (digits_value ds)"
  using py_int_digits[OF assms(2,3,4)] assms(1)
  by (simp add: user_count_of_def str_remove_both)

lemma below_minimum_row:
  assumes "parse_extension_info row = Inr (ext_id, n, info)" "n < MIN_USER_COUNT"
  shows "fst (process_rows [row] k file) = file"
    and "is_string_in_file ext_id file = Inr found \<Longrightarrow>
         process_rows (row # rest) k file = process_rows rest k file"
  using assms by (simp_all split: sum.splits)

lemma parse_fixture_row:
  "parse_extension_info (fixture_row i u) =
     (case user_count_of (JStr u) of
        Inl e \<Rightarrow> Inl ValueError
      | Inr n \<Rightarrow> Inr (JStr i, n, fixture_record i u))"
  by (simp add: parse_extension_info_def fixture_row_def fixture_record_def ebind_def
      reraise_value_error_def user_count_of_def split: option.splits)

text \<open>
  C7. The user count of a row is read from its text with every thousands separator and
  every plus sign taken out: a text that is a non-empty decimal numeral once the commas and
  plus signs are removed yields that number, so \<open>"10,000+"\<close> yields 10000 and \<open>"1"\<close> yields
  1. A row that parses but whose count is below \<open>MIN_USER_COUNT\<close> leaves the record log as
  it was, and the loop goes on with the next row and the same count of new entries.
\<close>

theorem user_count_parsing:
  "user_count_of (JStr ''10,000+'') = Inr 10000 \<and>
   user_count_of (JStr ''1'') = Inr 1 \<and>
   (filter (\<lambda>c. c \<noteq> CHR '','' \<and> c \<noteq> CHR ''+'') s = ds \<and> ds \<noteq> [] \<and> (\<forall>c\<in>set ds. is_digit c) \<and>
      length ds \<le> int_max_str_digits \<longrightarrow>
    user_count_of (JStr s) = Inr (digits_value ds)) \<and>
   (parse_extension_info row = Inr (ext_id, n, info) \<and> n < MIN_USER_COUNT \<longrightarrow>
    fst (process_rows [row] k file) = file \<and>
    (\<forall>found. is_string_in_file ext_id file = Inr found \<longrightarrow>
       process_rows (row # rest) k file = process_rows rest k file))"
proof (intro conjI impI allI)
  show "user_count_of (JStr ''10,000+'') = Inr 10000"
    by (rule user_count_examples)
  show "user_count_of (JStr ''1'') = Inr 1"
    by (rule user_count_examples)
next
  assume "filter (\<lambda>c. c \<noteq> CHR '','' \<and> c \<noteq> CHR ''+'') s = ds \<and> ds \<noteq> [] \<and> (\<forall>c\<in>set ds. is_digit c) \<and>
      length ds \<le> int_max_str_digits"
  then show "user_count_of (JStr s) = Inr (digits_value ds)"
    by (intro user_count_strips) auto
next
  assume a: "parse_extension_info row = Inr (ext_id, n, info) \<and> n < MIN_USER_COUNT"
  then show "fst (process_rows [row] k file) = file"
    by (intro below_minimum_row(1)[of row ext_id n info]) auto
  fix found
  assume "is_string_in_file ext_id file = Inr found"
  with a show "process_rows (row # rest) k file = process_rows rest k file"
    by (intro below_minimum_row(2)[of row ext_id n info]) auto
qed

theorem user_count_parsing_witness:
  "user_count_of (JStr ''2,500,000+'') = Inr 2500000 \<and>
   parse_extension_info (fixture_row ''abcd'' ''0'') = Inr (JStr ''abcd'', 0, fixture_record ''abcd'' ''0'') \<and>
   (0::int) < MIN_USER_COUNT \<and>
   is_string_in_file (JStr ''abcd'') (Some []) = Inr False \<and>
   process_rows [fixture_row ''abcd'' ''0'', fixture_row ''efgh'' ''7''] 0 (Some []) =
     process_rows [fixture_row ''efgh'' ''7''] 0 (Some [])"
proof -
  have p: "parse_extension_info (fixture_row ''abcd'' ''0'') = Inr (JStr ''abcd'', 0, fixture_record ''abcd'' ''0'')"
    by (simp add: parse_fixture_row eval_int)
  have m: "(0::int) < MIN_USER_COUNT"
    by (simp add: MIN_USER_COUNT_def)
  have f: "is_string_in_file (JStr ''abcd'') (Some []) = Inr False"
    by (simp add: is_string_in_file_def)
  have d: "filter (\<lambda>c. c \<noteq> CHR '','' \<and> c \<noteq> CHR ''+'') ''2,500,000+'' = ''2500000'' \<and> ''2500000'' \<noteq> [] \<and>
      (\<forall>c\<in>set ''2500000''. is_digit c) \<and> length ''2500000'' \<le> int_max_str_digits"
    by (simp add: is_digit_iff int_max_str_digits_def)
  have v: "digits_value ''2500000'' = 2500000"
    by (simp add: digits_value_def digit_val_def)
  show ?thesis
    using user_count_parsing[of "''2,500,000+''" "''2500000''" "fixture_row ''abcd'' ''0''" "JStr ''abcd''" 0
        "fixture_record ''abcd'' ''0''" 0 "Some []" "[fixture_row ''efgh'' ''7'']"] p m f d v
    by simp
qed

subsection \<open>The rows of a page\<close>

lemma process_rows_append:
  "process_rows (pre @ rows) k logf =
     (case process_rows pre k logf of
        (f, Inl e) \<Rightarrow> (f, Inl e)
      | (f, Inr k') \<Rightarrow> process_rows rows k' f)"
  by (induction pre k logf rule: process_rows.induct) (auto split: sum.splits prod.splits)

lemma py_iter_truthy: "py_iter v = Inr (x # xs) \<Longrightarrow> truthy v"
  by (cases v) auto

subsection \<open>One pass through the loop of \<open>run\<close>\<close>




lemma run_body_row_error:
  assumes "parse_extension_info row = Inl e"
    and "make_request env (build_request_url tok) st = (st1, Inr resp)"
    and "parse_response env resp = Inr response_data"
    and "page_fields response_data = Inr (items, cursor)"
    and "py_iter items = Inr (pre @ row # rest)"
    and "process_rows pre 0 (output_file st1) = (f, Inr k)"
  shows "run_body env tok tot st =
     Inl \<lparr>final_state = st1\<lparr>output_file := f\<rparr>,
          final_token = (if cursor \<noteq> JStr ''#@'' then cursor else JNull),
          total_saved = tot, raised = Some e\<rparr>"
proof -
  have t: "truthy items"
    using assms(5) by (cases pre) (auto dest: py_iter_truthy)
  have p: "process_extensions items (output_file st1) = (f, Inl e)"
    using assms(1,5,6) by (simp add: process_extensions_def process_rows_append)
  show ?thesis
    using assms(2,3,4) t p by (simp add: run_body_def ebind_def Let_def)
qed





subsection \<open>The fixtures\<close>

lemma fixture_strings:
    "json_string ''id'' = CHR 0x22 # ''id'' @ [CHR 0x22]"
    "json_string ''name'' = CHR 0x22 # ''name'' @ [CHR 0x22]"
    "json_string ''developer'' = CHR 0x22 # ''developer'' @ [CHR 0x22]"
    "json_string ''dev'' = CHR 0x22 # ''dev'' @ [CHR 0x22]"
    "json_string ''description'' = CHR 0x22 # ''description'' @ [CHR 0x22]"
    "json_string ''text'' = CHR 0x22 # ''text'' @ [CHR 0x22]"
    "json_string ''primary_category'' = CHR 0x22 # ''primary_category'' @ [CHR 0x22]"
    "json_string ''cat'' = CHR 0x22 # ''cat'' @ [CHR 0x22]"
    "json_string ''secondary_category'' = CHR 0x22 # ''secondary_category'' @ [CHR 0x22]"
    "json_string ''sub'' = CHR 0x22 # ''sub'' @ [CHR 0x22]"
    "json_string ''rating_score'' = CHR 0x22 # ''rating_score'' @ [CHR 0x22]"
    "json_string ''star_count'' = CHR 0x22 # ''star_count'' @ [CHR 0x22]"
    "json_string ''12'' = CHR 0x22 # ''12'' @ [CHR 0x22]"
    "json_string ''user_count'' = CHR 0x22 # ''user_count'' @ [CHR 0x22]"
    "json_string ''url'' = CHR 0x22 # ''url'' @ [CHR 0x22]"
    "json_string ''link'' = CHR 0x22 # ''link'' @ [CHR 0x22]"
  by (simp_all add: json_string_def json_escape_char_def)

lemma record_text:
  "json_dumps (fixture_record i u) =
     [CHR ''{'', CHR 0x22, CHR ''i'', CHR ''d'', CHR 0x22, CHR '':'', CHR '' ''] @ json_string i @
     [CHR '','', CHR '' '', CHR 0x22] @ ''name'' @ [CHR 0x22, CHR '':'', CHR '' '', CHR 0x22] @ ''name'' @
     [CHR 0x22, CHR '','', CHR '' '', CHR 0x22] @ ''developer'' @ [CHR 0x22, CHR '':'', CHR '' '', CHR 0x22] @ ''dev'' @
     [CHR 0x22, CHR '','', CHR '' '', CHR 0x22] @ ''description'' @ [CHR 0x22, CHR '':'', CHR '' '', CHR 0x22] @ ''text'' @
     [CHR 0x22, CHR '','', CHR '' '', CHR 0x22] @ ''primary_category'' @ [CHR 0x22, CHR '':'', CHR '' '', CHR 0x22] @ ''cat'' @
     [CHR 0x22, CHR '','', CHR '' '', CHR 0x22] @ ''secondary_category'' @ [CHR 0x22, CHR '':'', CHR '' '', CHR 0x22] @ ''sub'' @
     [CHR 0x22, CHR '','', CHR '' '', CHR 0x22] @ ''rating_score'' @ [CHR 0x22] @ '': 4.5, '' @
     [CHR 0x22] @ ''star_count'' @ [CHR 0x22, CHR '':'', CHR '' '', CHR 0x22] @ ''12'' @
     [CHR 0x22, CHR '','', CHR '' '', CHR 0x22] @ ''user_count'' @ [CHR 0x22, CHR '':'', CHR '' ''] @ json_string u @
     [CHR '','', CHR '' '', CHR 0x22] @ ''url'' @ [CHR 0x22, CHR '':'', CHR '' '', CHR 0x22] @ ''link'' @ [CHR 0x22, CHR ''}'']"
  by (simp add: fixture_record_def json_float_def fixture_strings)

lemma truthy_fixture_record: "truthy (fixture_record i u)"
  by (simp add: fixture_record_def)

lemmas eval_rows =
  parse_fixture_row eval_int is_string_in_file_def append_dict_to_file_def MIN_USER_COUNT_def
  truthy_fixture_record record_text json_string_def json_escape_char_def

lemma token_param:
  "map_of (snd (build_request_url tok)) ''token'' = (if truthy tok then Some (py_str tok) else None)"
  by (simp add: build_request_url_def)

lemma page_fields_fixture: "page_fields (fixture_page rows c) = Inr (JArr rows, c)"
  by (simp add: page_fields_def fixture_page_def ebind_def)




lemma lstrip_fixture_body:
  "lstrip [CHR '')'', CHR '']'', CHR ''}'', CHR 0x27, CHR 0x0A] (fixture_body (fixture_page rows c)) =
     json_dumps (fixture_page rows c)"
  by (simp add: lstrip_def fixture_body_def fixture_page_def)






subsection \<open>Passes over the two-page catalog\<close>







lemma collect_scratch:
  "collect n env scratch_state =
     run_loop n env JNull 0 \<lparr>output_file = Some [], checkpoint_file = None, requests = []\<rparr>"
  by (simp add: collect_def run_def init_def load_checkpoint_def scratch_state_def)




subsection \<open>A row that does not parse\<close>

lemma parse_empty_row: "parse_extension_info (JArr []) = Inl ValueError"
  by (simp add: parse_extension_info_def ebind_def reraise_value_error_def)

lemma env_bad_page:
  "http_post (fixture_env [(None, bad_page)] []) n (build_request_url JNull) =
     Inr \<lparr>status_code = 200, body_text = fixture_body bad_page\<rparr>"
  "json_loads (fixture_env [(None, bad_page)] []) (json_dumps bad_page) = Some bad_page"
  by (simp_all add: fixture_env_def fixture_catalog_def token_param fixture_loads_def)

lemma bad_page_fetch:
  "make_request (fixture_env [(None, bad_page)] []) (build_request_url JNull)
      \<lparr>output_file = Some [], checkpoint_file = None, requests = []\<rparr> =
     (\<lparr>output_file = Some [], checkpoint_file = None, requests = [build_request_url JNull]\<rparr>,
      Inr \<lparr>status_code = 200, body_text = fixture_body bad_page\<rparr>)"
  "parse_response (fixture_env [(None, bad_page)] []) \<lparr>status_code = 200, body_text = fixture_body bad_page\<rparr> =
     Inr bad_page"
  "page_fields bad_page = Inr (JArr [JArr [], fixture_row ''abcd'' ''5''], JStr ''t2'')"
  using env_bad_page
  by (simp_all add: make_request_def parse_response_def bad_page_def lstrip_fixture_body page_fields_fixture)

lemma bad_page_collect:
  "collect (Suc n) (fixture_env [(None, bad_page)] []) scratch_state =
     Some \<lparr>final_state = \<lparr>output_file = Some [], checkpoint_file = None, requests = [build_request_url JNull]\<rparr>,
           final_token = JStr ''t2'', total_saved = 0, raised = Some ValueError\<rparr>"
proof -
  have "run_body (fixture_env [(None, bad_page)] []) JNull 0
          \<lparr>output_file = Some [], checkpoint_file = None, requests = []\<rparr> =
        Inl \<lparr>final_state = \<lparr>output_file = Some [], checkpoint_file = None, requests = [build_request_url JNull]\<rparr>,
             final_token = JStr ''t2'', total_saved = 0, raised = Some ValueError\<rparr>"
    using run_body_row_error[OF parse_empty_row bad_page_fetch, of "[]" "[fixture_row ''abcd'' ''5'']" "Some []" 0 0]
    by simp
  then show ?thesis
    by (simp add: collect_scratch)
qed

lemma good_row_alone:
  "process_extensions (JArr [fixture_row ''abcd'' ''5'']) (Some []) =
     (Some (json_dumps (fixture_record ''abcd'' ''5'') @ [CHR 0x0A]), Inr 1)"
  by (simp add: process_extensions_def eval_rows)

text \<open>
  C1, as the code has it. A row that \<open>parse_extension_info\<close> fails on ends
  \<open>process_extensions\<close> with the exception: the rows before it have been processed, the rows
  after it are not looked at. Nothing in \<open>run\<close> catches the exception, so the run ends with
  it, the record log holding what the rows before the failing one added and the checkpoint
  file as it was before the page.
\<close>

theorem row_failure_aborts_run:
  "parse_extension_info row = Inl e \<longrightarrow>
     (process_rows pre k logf = (f, Inr k') \<longrightarrow>
        process_rows (pre @ row # rest) k logf = (f, Inl e)) \<and>
     (make_request env (build_request_url tok) st = (st1, Inr resp) \<and>
      parse_response env resp = Inr response_data \<and>
      page_fields response_data = Inr (items, cursor) \<and>
      py_iter items = Inr (pre @ row # rest) \<and>
      process_rows pre 0 (output_file st1) = (f0, Inr k0) \<longrightarrow>
        run_loop (Suc n) env tok tot st =
          Some \<lparr>final_state = st1\<lparr>output_file := f0\<rparr>,
                final_token = (if cursor \<noteq> JStr ''#@'' then cursor else JNull),
                total_saved = tot, raised = Some e\<rparr> \<and>
        checkpoint_file (st1\<lparr>output_file := f0\<rparr>) = checkpoint_file st)"
proof (intro impI conjI)
  assume e: "parse_extension_info row = Inl e"
  {
    assume "process_rows pre k logf = (f, Inr k')"
    with e show "process_rows (pre @ row # rest) k logf = (f, Inl e)"
      by (simp add: process_rows_append)
  }
  assume a: "make_request env (build_request_url tok) st = (st1, Inr resp) \<and>
      parse_response env resp = Inr response_data \<and>
      page_fields response_data = Inr (items, cursor) \<and>
      py_iter items = Inr (pre @ row # rest) \<and>
      process_rows pre 0 (output_file st1) = (f0, Inr k0)"
  then have "run_body env tok tot st =
      Inl \<lparr>final_state = st1\<lparr>output_file := f0\<rparr>,
           final_token = (if cursor \<noteq> JStr ''#@'' then cursor else JNull),
           total_saved = tot, raised = Some e\<rparr>"
    by (intro run_body_row_error[OF e]) auto
  then show "run_loop (Suc n) env tok tot st =
      Some \<lparr>final_state = st1\<lparr>output_file := f0\<rparr>,
            final_token = (if cursor \<noteq> JStr ''#@'' then cursor else JNull),
            total_saved = tot, raised = Some e\<rparr>"
    by simp
  from a show "checkpoint_file (st1\<lparr>output_file := f0\<rparr>) = checkpoint_file st"
    by (auto simp: make_request_def)
qed

theorem row_failure_aborts_run_witness:
  "parse_extension_info (JArr []) = Inl ValueError \<and>
   process_rows [] 0 (Some []) = (Some [], Inr 0) \<and>
   process_rows ([] @ JArr [] # [fixture_row ''abcd'' ''5'']) 0 (Some []) = (Some [], Inl ValueError) \<and>
   run_loop (Suc 0) (fixture_env [(None, bad_page)] []) JNull 0
       \<lparr>output_file = Some [], checkpoint_file = None, requests = []\<rparr> =
     Some \<lparr>final_state = \<lparr>output_file = Some [], checkpoint_file = None, requests = [build_request_url JNull]\<rparr>,
           final_token = JStr ''t2'', total_saved = 0, raised = Some ValueError\<rparr>"
  using row_failure_aborts_run[of "JArr []" ValueError "[]" 0 "Some []" "Some []" 0 "[fixture_row ''abcd'' ''5'']"
      "fixture_env [(None, bad_page)] []" JNull "\<lparr>output_file = Some [], checkpoint_file = None, requests = []\<rparr>"
      "\<lparr>output_file = Some [], checkpoint_file = None, requests = [build_request_url JNull]\<rparr>"
      "\<lparr>status_code = 200, body_text = fixture_body bad_page\<rparr>" bad_page
      "JArr [JArr [], fixture_row ''abcd'' ''5'']" "JStr ''t2''" "Some []" 0 0 0]
    parse_empty_row bad_page_fetch
  by simp

text \<open>
  The claim as stated fails: with an empty list in front of it, a well-formed new row with
  five users is not recorded and the run ends with \<open>ValueError\<close>; alone on its page the same
  row is recorded.
\<close>

theorem row_failure_counterexample:
  "collect 1 (fixture_env [(None, bad_page)] []) scratch_state =
     Some \<lparr>final_state = \<lparr>output_file = Some [], checkpoint_file = None, requests = [build_request_url JNull]\<rparr>,
           final_token = JStr ''t2'', total_saved = 0, raised = Some ValueError\<rparr> \<and>
   process_extensions (JArr [JArr [], fixture_row ''abcd'' ''5'']) (Some []) = (Some [], Inl ValueError) \<and>
   process_extensions (JArr [fixture_row ''abcd'' ''5'']) (Some []) =
     (Some (json_dumps (fixture_record ''abcd'' ''5'') @ [CHR 0x0A]), Inr 1)"
  using bad_page_collect[of 0] good_row_alone
  by (simp add: process_extensions_def parse_empty_row)


subsection \<open>An error while a page is fetched\<close>








subsection \<open>An item id that the record log does not hold verbatim\<close>

text \<open>
  C4 fails on the code. \<open>json.dump\<close> writes the id \<open>a"b\<close> as \<open>a\"b\<close>, so the text of the
  record log never contains the id itself, \<open>is_string_in_file\<close> answers \<open>False\<close> every time,
  and two rows with that id put two records with that id into the log.
\<close>

theorem duplicate_id_recorded_twice:
  "is_string_in_file (JStr quoted_id) (Some (json_dumps (fixture_record quoted_id ''5'') @ [CHR 0x0A])) = Inr False \<and>
   process_extensions (JArr [fixture_row quoted_id ''5'', fixture_row quoted_id ''5'']) (Some []) =
     (Some (json_dumps (fixture_record quoted_id ''5'') @ [CHR 0x0A] @
            json_dumps (fixture_record quoted_id ''5'') @ [CHR 0x0A]), Inr 2)"
  by (simp add: process_extensions_def quoted_id_def eval_rows)

end
